theory Spec2Isabelle
  imports Main "HOL-Library.AList" "HOL-Library.Sublist"
begin

section \<open>The environment: exceptions, the filesystem, the process\<close>

text \<open>
  Python exceptions as values. \<open>RuntimeError msg cause\<close> is
  \<^verbatim>\<open>raise RuntimeError(msg) from cause\<close>: the message and the wrapped original.
\<close>

datatype exn =
    Exception string
  | FileNotFoundError string
  | FileExistsError string
  | NotADirectoryError string
  | IsADirectoryError string
  | OSError string
  | KeyError string
  | AttributeError string
  | RuntimeError string exn

text \<open>
  The filesystem is a tree. A directory lists its entries in the order \<^verbatim>\<open>os.scandir\<close>
  yields them. \<open>Archive\<close> is a tar file: its members, each a name and the tree stored
  under it. Symbolic links are not part of the model: every \<^verbatim>\<open>os.path\<close> test the
  program uses follows links, so a node stands for what a path resolves to.
\<close>

datatype node =
    File string
  | Dir "(string \<times> node) list"
  | Archive "(string \<times> node) list"

type_synonym path = "string list"

fun lookup :: "node \<Rightarrow> path \<Rightarrow> node option" where
  "lookup n [] = Some n"
| "lookup (Dir es) (c # cs) =
     (case map_of es c of None \<Rightarrow> None | Some m \<Rightarrow> lookup m cs)"
| "lookup (File v) (c # cs) = None"
| "lookup (Archive ms) (c # cs) = None"

text \<open>Writing a node at a path whose parent is an existing directory (create or replace).\<close>

fun put :: "node \<Rightarrow> path \<Rightarrow> node \<Rightarrow> node option" where
  "put n [] m = None"
| "put (Dir es) [c] m = Some (Dir (AList.update c m es))"
| "put (Dir es) (c # d # cs) m =
     (case map_of es c of
        None \<Rightarrow> None
      | Some x \<Rightarrow> (case put x (d # cs) m of
                    None \<Rightarrow> None
                  | Some x' \<Rightarrow> Some (Dir (AList.update c x' es))))"
| "put (File v) (c # cs) m = None"
| "put (Archive ms) (c # cs) m = None"

text \<open>Unlinking the entry at a path (with everything below it).\<close>

fun del :: "node \<Rightarrow> path \<Rightarrow> node option" where
  "del n [] = None"
| "del (Dir es) [c] =
     (case map_of es c of None \<Rightarrow> None | Some x \<Rightarrow> Some (Dir (AList.delete c es)))"
| "del (Dir es) (c # d # cs) =
     (case map_of es c of
        None \<Rightarrow> None
      | Some x \<Rightarrow> (case del x (d # cs) of
                    None \<Rightarrow> None
                  | Some x' \<Rightarrow> Some (Dir (AList.update c x' es))))"
| "del (File v) (c # cs) = None"
| "del (Archive ms) (c # cs) = None"

fun fresh_dirs :: "path \<Rightarrow> node" where
  "fresh_dirs [] = Dir []"
| "fresh_dirs (c # cs) = Dir [(c, fresh_dirs cs)]"

text \<open>
  \<^verbatim>\<open>os.makedirs(p, mode=0o777, exist_ok=True)\<close> on the tree: missing directories are
  created along the path, an existing directory is left as it is, a file on the way or at
  the end is an error. Access modes are not modelled.
\<close>

fun mkdirs :: "node \<Rightarrow> path \<Rightarrow> string \<Rightarrow> exn + node" where
  "mkdirs (Dir es) [] s = Inr (Dir es)"
| "mkdirs (File v) [] s = Inl (FileExistsError s)"
| "mkdirs (Archive ms) [] s = Inl (FileExistsError s)"
| "mkdirs (Dir es) (c # cs) s =
     (case map_of es c of
        None \<Rightarrow> Inr (Dir (es @ [(c, fresh_dirs cs)]))
      | Some x \<Rightarrow> (case mkdirs x cs s of
                    Inl e \<Rightarrow> Inl e
                  | Inr x' \<Rightarrow> Inr (Dir (AList.update c x' es))))"
| "mkdirs (File v) (c # cs) s = Inl (NotADirectoryError s)"
| "mkdirs (Archive ms) (c # cs) s = Inl (NotADirectoryError s)"

text \<open>What the program writes to its standard output and standard error.\<close>

datatype emitted = Printed string | HelpText | UsageMessage

text \<open>
  The state of the process and of the machine it runs on: the filesystem, the working
  directory, \<^verbatim>\<open>os.environ\<close>, the effective user id, what has been written to the
  terminal, what the functions of the \<^verbatim>\<open>platform\<close> module return (by function name, as
  printed; a function that is missing or raises has no entry), what
  \<^verbatim>\<open>distro.linux_distribution()\<close> returns (\<open>None\<close> when the module cannot be imported),
  and the programs found on the search path.
\<close>

record world =
  root :: node
  cwd :: string
  environ :: "(string \<times> string) list"
  euid :: nat
  out :: "emitted list"
  platform :: "(string \<times> string) list"
  distro :: "string option"
  executables :: "string list"

type_synonym 'a result = "(exn \<times> world) + ('a \<times> world)"
type_synonym action = "world \<Rightarrow> (exn \<times> world) + world"

definition print :: "string \<Rightarrow> action" where
  "print s w = Inr (w\<lparr>out := out w @ [Printed s]\<rparr>)"

text \<open>Statements in sequence: the next one runs in the state the previous one left, unless that one raised.\<close>

fun then_do :: "(exn \<times> world) + world \<Rightarrow> action \<Rightarrow> (exn \<times> world) + world" where
  "then_do (Inl e) f = Inl e"
| "then_do (Inr w) f = f w"

fun do_all :: "action list \<Rightarrow> action" where
  "do_all [] w = Inr w"
| "do_all (a # as) w = then_do (a w) (do_all as)"

text \<open>\<^verbatim>\<open>try: body  except Exception as exc: raise RuntimeError(msg) from exc\<close>\<close>

definition reraise :: "string \<Rightarrow> (exn \<times> world) + 'a \<Rightarrow> (exn \<times> world) + 'a" where
  "reraise msg r = (case r of Inl (e, w) \<Rightarrow> Inl (RuntimeError msg e, w) | Inr x \<Rightarrow> Inr x)"

subsection \<open>Paths\<close>

fun split_on :: "char \<Rightarrow> string \<Rightarrow> string list" where
  "split_on d [] = [[]]"
| "split_on d (c # cs) =
     (if c = d then [] # split_on d cs
      else (case split_on d cs of [] \<Rightarrow> [[c]] | x # xs \<Rightarrow> (c # x) # xs))"

text \<open>
  Normalising the components of a path: empty components and \<open>.\<close> vanish, \<open>..\<close> steps
  to the parent (staying at the root). This is \<^verbatim>\<open>Path.resolve()\<close> without symbolic
  links.
\<close>

fun norm_comps :: "path \<Rightarrow> string list \<Rightarrow> path" where
  "norm_comps acc [] = acc"
| "norm_comps acc (c # cs) =
     (if c = [] \<or> c = ''.'' then norm_comps acc cs
      else if c = ''..'' then norm_comps (butlast acc) cs
      else norm_comps (acc @ [c]) cs)"

definition resolve :: "world \<Rightarrow> string \<Rightarrow> path" where
  "resolve w s =
     norm_comps [] (split_on CHR ''/''
       (if s \<noteq> [] \<and> hd s = CHR ''/'' then s else cwd w @ ''/'' @ s))"

text \<open>\<^verbatim>\<open>str(path)\<close> of an absolute path.\<close>

definition path_str :: "path \<Rightarrow> string" where
  "path_str p = (if p = [] then ''/'' else concat (map (\<lambda>c. CHR ''/'' # c) p))"

text \<open>
  \<^verbatim>\<open>path.joinpath(name)\<close>: an absolute name replaces the path, empty components and
  \<open>.\<close> are dropped. For a plain file name this appends one component.
\<close>

definition joinpath :: "path \<Rightarrow> string \<Rightarrow> path" where
  "joinpath p name =
     (if name \<noteq> [] \<and> hd name = CHR ''/'' then [] else p) @
     filter (\<lambda>c. c \<noteq> [] \<and> c \<noteq> ''.'') (split_on CHR ''/'' name)"

text \<open>\<^verbatim>\<open>path.parent\<close>, \<^verbatim>\<open>os.path.dirname(path)\<close> and \<^verbatim>\<open>os.path.basename(path)\<close> of a Path object.\<close>

definition parent :: "path \<Rightarrow> path" where
  "parent p = butlast p"

definition basename :: "path \<Rightarrow> string" where
  "basename p = (if p = [] then [] else last p)"

text \<open>\<^verbatim>\<open>os.path.basename\<close> of a string: what follows the last slash.\<close>

definition str_basename :: "string \<Rightarrow> string" where
  "str_basename s = rev (takeWhile (\<lambda>c. c \<noteq> CHR ''/'') (rev s))"

text \<open>
  \<^verbatim>\<open>os.path.splitext(name)[0]\<close> of a name without slashes: the last dot and what follows
  are cut off, unless only dots precede it.
\<close>

definition splitext_root :: "string \<Rightarrow> string" where
  "splitext_root s =
     (let rest = dropWhile (\<lambda>c. c \<noteq> CHR ''.'') (rev s) in
      if rest = [] then s
      else (let stem = rev (tl rest) in
            if \<forall>c \<in> set stem. c = CHR ''.'' then s else stem))"

text \<open>
  \<^verbatim>\<open>os.path.expanduser\<close>: a leading \<open>~\<close> (alone or before a slash) becomes \<open>$HOME\<close>. The
  password database (\<open>~user\<close>, or \<open>HOME\<close> unset) is not modelled: the string stays.
\<close>

definition expanduser :: "world \<Rightarrow> string \<Rightarrow> string" where
  "expanduser w s =
     (case s of
        [] \<Rightarrow> s
      | c # cs \<Rightarrow>
          (if c = CHR ''~'' \<and> (cs = [] \<or> hd cs = CHR ''/'') then
             (case map_of (environ w) ''HOME'' of None \<Rightarrow> s | Some h \<Rightarrow> h @ cs)
           else s))"

definition is_varchar :: "char \<Rightarrow> bool" where
  "is_varchar c = (c \<in> set ''abcdefghijklmnopqrstuvwxyzABCDEFGHIJKLMNOPQRSTUVWXYZ0123456789_'')"

definition subst_var :: "(string \<times> string) list \<Rightarrow> string \<Rightarrow> string" where
  "subst_var env name =
     (if name = [] then ''$''
      else (case map_of env name of None \<Rightarrow> CHR ''$'' # name | Some v \<Rightarrow> v))"

text \<open>
  \<^verbatim>\<open>os.path.expandvars\<close> for the form \<open>$NAME\<close>: a set variable is replaced by its value, an
  unset one is left as written. The form with braces is left as written.
  The second argument is the name being read after a dollar sign, if any.
\<close>

fun expandvars_from :: "(string \<times> string) list \<Rightarrow> string option \<Rightarrow> string \<Rightarrow> string" where
  "expandvars_from env None [] = []"
| "expandvars_from env (Some name) [] = subst_var env name"
| "expandvars_from env None (c # cs) =
     (if c = CHR ''$'' then expandvars_from env (Some []) cs
      else c # expandvars_from env None cs)"
| "expandvars_from env (Some name) (c # cs) =
     (if is_varchar c then expandvars_from env (Some (name @ [c])) cs
      else subst_var env name @
           (if c = CHR ''$'' then expandvars_from env (Some []) cs
            else c # expandvars_from env None cs))"

definition expandvars :: "world \<Rightarrow> string \<Rightarrow> string" where
  "expandvars w s = expandvars_from (environ w) None s"

subsection \<open>The \<^verbatim>\<open>os\<close> and \<^verbatim>\<open>shutil\<close> calls the program makes\<close>

definition is_file_node :: "node option \<Rightarrow> bool" where
  "is_file_node n = (case n of Some (File v) \<Rightarrow> True | Some (Archive ms) \<Rightarrow> True | _ \<Rightarrow> False)"

definition is_dir_node :: "node option \<Rightarrow> bool" where
  "is_dir_node n = (case n of Some (Dir es) \<Rightarrow> True | _ \<Rightarrow> False)"

text \<open>On a Path object.\<close>

definition isfile :: "world \<Rightarrow> path \<Rightarrow> bool" where
  "isfile w p = is_file_node (lookup (root w) p)"

definition isdir :: "world \<Rightarrow> path \<Rightarrow> bool" where
  "isdir w p = is_dir_node (lookup (root w) p)"

text \<open>On a string, resolved against the working directory.\<close>

definition os_path_exists :: "world \<Rightarrow> string \<Rightarrow> bool" where
  "os_path_exists w s = (lookup (root w) (resolve w s) \<noteq> None)"

definition os_path_isfile :: "world \<Rightarrow> string \<Rightarrow> bool" where
  "os_path_isfile w s = isfile w (resolve w s)"

definition os_path_isdir :: "world \<Rightarrow> string \<Rightarrow> bool" where
  "os_path_isdir w s = isdir w (resolve w s)"

definition remove_path :: "path \<Rightarrow> string \<Rightarrow> action" where
  "remove_path p s w =
     (case lookup (root w) p of
        None \<Rightarrow> Inl (FileNotFoundError s, w)
      | Some (Dir es) \<Rightarrow> Inl (IsADirectoryError s, w)
      | Some n \<Rightarrow> (case del (root w) p of
                    None \<Rightarrow> Inl (OSError s, w)
                  | Some r \<Rightarrow> Inr (w\<lparr>root := r\<rparr>)))"

definition os_remove :: "string \<Rightarrow> action" where
  "os_remove s w = remove_path (resolve w s) s w"

definition shutil_rmtree :: "path \<Rightarrow> action" where
  "shutil_rmtree p w =
     (case lookup (root w) p of
        None \<Rightarrow> Inl (FileNotFoundError (path_str p), w)
      | Some (Dir es) \<Rightarrow> (case del (root w) p of
                          None \<Rightarrow> Inl (OSError (path_str p), w)
                        | Some r \<Rightarrow> Inr (w\<lparr>root := r\<rparr>))
      | Some n \<Rightarrow> Inl (NotADirectoryError (path_str p), w))"

definition makedirs_path :: "path \<Rightarrow> action" where
  "makedirs_path p w =
     (case mkdirs (root w) p (path_str p) of
        Inl e \<Rightarrow> Inl (e, w)
      | Inr r \<Rightarrow> Inr (w\<lparr>root := r\<rparr>))"

definition os_makedirs :: "string \<Rightarrow> action" where
  "os_makedirs s w = makedirs_path (resolve w s) w"

section \<open>helper\_functions.py\<close>

definition get_canonical_path :: "world \<Rightarrow> string \<Rightarrow> path" where
  "get_canonical_path w name = resolve w (expandvars w (expanduser w name))"

definition get_canonical_path_str :: "world \<Rightarrow> string \<Rightarrow> string" where
  "get_canonical_path_str w name = path_str (resolve w (expandvars w (expanduser w name)))"

definition bool_str :: "bool \<Rightarrow> string" where
  "bool_str b = (if b then ''True'' else ''False'')"

definition create_output_dir :: "string \<Rightarrow> bool \<Rightarrow> world \<Rightarrow> path result" where
  "create_output_dir outdir clear_flag w =
     reraise (''Error in creating directory '' @ outdir @ '' with clear_flag = '' @ bool_str clear_flag)
       (let od_path = get_canonical_path w outdir in
        case (if clear_flag then
                (if isfile w od_path then
                   do_all [print (''*** Deleting existing file '' @ path_str od_path @ ''...\<newline>\<newline>''),
                           remove_path od_path (path_str od_path)] w
                 else if isdir w od_path then
                   do_all [print (''*** Deleting existing directory '' @ path_str od_path @ ''...\<newline>\<newline>''),
                           shutil_rmtree od_path] w
                 else Inr w)
              else Inr w) of
          Inl e \<Rightarrow> Inl e
        | Inr w1 \<Rightarrow>
            (case makedirs_path od_path w1 of
               Inl e \<Rightarrow> Inl e
             | Inr w2 \<Rightarrow>
                 (case (if os_path_isfile w2 (path_str od_path @ ''.tar.gz'') then
                          do_all [print (''*** Deleting existing file '' @ path_str od_path @ ''.tar.gz...\<newline>\<newline>''),
                                  os_remove (path_str od_path @ ''.tar.gz'')] w2
                        else Inr w2) of
                    Inl e \<Rightarrow> Inl e
                  | Inr w3 \<Rightarrow> Inr (od_path, w3))))"


section \<open>gather\_info\_docker.py\<close>

subsection \<open>More of the environment: files, the shell, tar\<close>

definition raise :: "exn \<Rightarrow> action" where
  "raise e w = Inl (e, w)"

text \<open>
  \<^verbatim>\<open>open(s, 'w')\<close> (truncating) and \<^verbatim>\<open>open(s, 'a')\<close>: the file is created when it is
  missing, which needs its directory; a directory cannot be opened.
\<close>

definition open_file :: "bool \<Rightarrow> string \<Rightarrow> action" where
  "open_file trunc s w =
     (let p = resolve w s in
      case lookup (root w) p of
        Some (Dir es) \<Rightarrow> Inl (IsADirectoryError s, w)
      | Some n \<Rightarrow>
          (if trunc then
             (case put (root w) p (File []) of
                None \<Rightarrow> Inl (OSError s, w)
              | Some r \<Rightarrow> Inr (w\<lparr>root := r\<rparr>))
           else Inr w)
      | None \<Rightarrow>
          (case put (root w) p (File []) of
             None \<Rightarrow> Inl (FileNotFoundError s, w)
           | Some r \<Rightarrow> Inr (w\<lparr>root := r\<rparr>)))"

text \<open>Writing text at the end of an open file.\<close>

definition file_write :: "string \<Rightarrow> string \<Rightarrow> action" where
  "file_write s text w =
     (let p = resolve w s in
      case lookup (root w) p of
        Some (File v) \<Rightarrow>
          (case put (root w) p (File (v @ text)) of
             None \<Rightarrow> Inl (OSError s, w)
           | Some r \<Rightarrow> Inr (w\<lparr>root := r\<rparr>))
      | _ \<Rightarrow> Inl (OSError s, w))"

definition os_chdir :: "string \<Rightarrow> action" where
  "os_chdir s w =
     (case lookup (root w) (resolve w s) of
        None \<Rightarrow> Inl (FileNotFoundError s, w)
      | Some (Dir es) \<Rightarrow> Inr (w\<lparr>cwd := path_str (resolve w s)\<rparr>)
      | Some n \<Rightarrow> Inl (NotADirectoryError s, w))"

text \<open>
  \<^verbatim>\<open>tarfile.open(name, 'x:gz')\<close> creates the archive and fails when anything has that
  name already; \<^verbatim>\<open>tar.add(name)\<close> stores the tree under \<open>name\<close> as a member.
\<close>

definition tarfile_open_x :: "string \<Rightarrow> action" where
  "tarfile_open_x s w =
     (let p = resolve w s in
      case lookup (root w) p of
        Some n \<Rightarrow> Inl (FileExistsError s, w)
      | None \<Rightarrow>
          (case put (root w) p (Archive []) of
             None \<Rightarrow> Inl (FileNotFoundError s, w)
           | Some r \<Rightarrow> Inr (w\<lparr>root := r\<rparr>)))"

definition tar_add :: "string \<Rightarrow> string \<Rightarrow> action" where
  "tar_add tar_name name w =
     (case lookup (root w) (resolve w name) of
        None \<Rightarrow> Inl (FileNotFoundError name, w)
      | Some n \<Rightarrow>
          (case lookup (root w) (resolve w tar_name) of
             Some (Archive ms) \<Rightarrow>
               (case put (root w) (resolve w tar_name) (Archive (ms @ [(name, n)])) of
                  None \<Rightarrow> Inl (OSError tar_name, w)
                | Some r \<Rightarrow> Inr (w\<lparr>root := r\<rparr>))
           | _ \<Rightarrow> Inl (OSError tar_name, w)))"

text \<open>
  The shell is the environment's: given a command line and the state it runs in, either
  \<^verbatim>\<open>/bin/bash\<close> cannot be started (\<open>None\<close>), or the command runs to its end, leaving an
  exit status and a filesystem.
\<close>

type_synonym shell = "string \<Rightarrow> world \<Rightarrow> (int \<times> node) option"

subsection \<open>Constants of the module\<close>

text \<open>
  \<open>script\<close> is \<^verbatim>\<open>sys.argv[0]\<close>. \<^verbatim>\<open>os.path.realpath\<close> is \<open>resolve\<close> in a model without
  symbolic links.
\<close>

definition ACTUAL_CMD :: "world \<Rightarrow> string \<Rightarrow> string" where
  "ACTUAL_CMD w script = path_str (resolve w script)"

definition INFO_TARBALL :: "world \<Rightarrow> string \<Rightarrow> string" where
  "INFO_TARBALL w script = splitext_root (str_basename (ACTUAL_CMD w script))"

definition EXECCMDLINEFILE :: "world \<Rightarrow> string \<Rightarrow> string" where
  "EXECCMDLINEFILE w script =
     ''execution-command-line-'' @ str_basename (ACTUAL_CMD w script) @ ''.txt''"

definition TMPDIR :: "world \<Rightarrow> string \<Rightarrow> string" where
  "TMPDIR w script = INFO_TARBALL w script"

definition TMPFILENAME :: string where
  "TMPFILENAME = ''tmpfile''"

definition STANDARD_FILE_NAMES :: "(string \<times> string) list" where
  "STANDARD_FILE_NAMES =
     [(''stdout'', ''cmd_stdout.txt''),
      (''stderr'', ''cmd_stderr.txt''),
      (''cmdline'', ''cmdline_invocation.txt''),
      (''yamlconfig'', ''model_yaml_config.txt''),
      (''envvars'', ''env_vars.txt''),
      (''habanalogs'', ''habana_logs''),
      (''dockerc_pypkgs'', ''docker_container_python_pkgs.txt''),
      (''dockerc_history'', ''docker_container_history.txt''),
      (''dockerc_diskusage'', ''docker_container_disk_usage.txt''),
      (''dockerc_homedir'', ''docker_container_homedir_and_model_artifacts''),
      (''dockerc_copydir'', ''docker_container_additional_dirs''),
      (''machine_hostname'', ''machine_hostname.txt''),
      (''machine_ipaddr'', ''machine_ipaddr.txt''),
      (''machine_hlsmi'', ''machine_hlsmi.txt''),
      (''machine_lspci'', ''machine_lspci.txt''),
      (''machine_cpuinfo'', ''machine_cpuinfo.txt''),
      (''machine_cpumode'', ''machine_cpumode.txt''),
      (''machine_nicstatus'', ''machine_Gaudi_NIC_status.txt''),
      (''python_info'', ''python_installation_info.txt''),
      (''platform_config_info'', ''platform_config_info.txt''),
      (''synapse_libs_info'', ''synapse_libs_info.txt''),
      (''package_info'', ''package_info.txt''),
      (''dmesg_info'', ''dmesg_info.txt'')]"

text \<open>\<^verbatim>\<open>SnapshotScriptDocker.STANDARD_FILE_NAMES[key]\<close>, then the rest of the statement.\<close>

definition std_file :: "string \<Rightarrow> (string \<Rightarrow> action) \<Rightarrow> action" where
  "std_file key k w =
     (case map_of STANDARD_FILE_NAMES key of
        None \<Rightarrow> Inl (KeyError key, w)
      | Some name \<Rightarrow> k name w)"

subsection \<open>The argument parser\<close>

record args =
  outdir :: string
  clear :: bool
  lite :: bool
  stdout :: string
  stderr :: "string option"
  yaml_config :: "string option"
  cmd_name :: "string option"
  copydirs :: "string list"

datatype parse_outcome = UsageError | HelpRequested | Parsed args

definition is_digit :: "char \<Rightarrow> bool" where
  "is_digit c = (c \<in> set ''0123456789'')"

text \<open>argparse takes \<open>-5\<close> and \<open>-.5\<close> for values, since no option of this parser looks like a number.\<close>

definition negative_number :: "string \<Rightarrow> bool" where
  "negative_number t =
     (case t of
        [] \<Rightarrow> False
      | c # cs \<Rightarrow>
          c = CHR ''-'' \<and>
          (let ds = takeWhile is_digit cs; r = dropWhile is_digit cs in
           (ds \<noteq> [] \<and> r = []) \<or>
           (r \<noteq> [] \<and> hd r = CHR ''.'' \<and> tl r \<noteq> [] \<and> (\<forall>x \<in> set (tl r). is_digit x))))"

definition optionlike :: "string \<Rightarrow> bool" where
  "optionlike t =
     (t \<noteq> [] \<and> hd t = CHR ''-'' \<and> t \<noteq> ''-'' \<and> \<not> negative_number t \<and> CHR '' '' \<notin> set t)"

text \<open>
  \<^verbatim>\<open>argparse.ArgumentParser.parse_args\<close> for the options that \<^verbatim>\<open>__init__\<close> adds, on
  command lines that write each option as one of its declared strings, followed by its
  values as separate words. The state is the namespace, whether \<open>--stdout\<close> was seen, and
  whether a word was left over. A missing value is reported where it is met; leftover
  words and the missing required option are reported at the end; \<open>-h\<close> prints the help
  where it is met. Abbreviated options, \<open>--opt=value\<close>, values joined to a short option
  and the \<open>--\<close> separator are outside this model (they count as leftover words).
\<close>

datatype option_kind = OptHelp | OptClear | OptLite | OptCopydirs | OptValue string | NoOption

definition classify :: "string \<Rightarrow> option_kind" where
  "classify t =
     (if t = ''-h'' \<or> t = ''--help'' then OptHelp
      else if t = ''-c'' \<or> t = ''--clear'' then OptClear
      else if t = ''--lite'' then OptLite
      else if t = ''--copydirs'' then OptCopydirs
      else if t = ''-o'' \<or> t = ''--outdir'' then OptValue ''outdir''
      else if t = ''-s'' \<or> t = ''--stdout'' then OptValue ''stdout''
      else if t = ''-e'' \<or> t = ''--stderr'' then OptValue ''stderr''
      else if t = ''-y'' \<or> t = ''--yaml_config'' then OptValue ''yaml_config''
      else if t = ''-cmd'' \<or> t = ''--cmd_name'' then OptValue ''cmd_name''
      else NoOption)"

type_synonym parse_state = "args \<times> bool \<times> bool"

definition store :: "string \<Rightarrow> string \<Rightarrow> parse_state \<Rightarrow> parse_state" where
  "store dest v st =
     (case st of (ns, seen, extra) \<Rightarrow>
        if dest = ''outdir'' then (ns\<lparr>outdir := v\<rparr>, seen, extra)
        else if dest = ''stdout'' then (ns\<lparr>stdout := v\<rparr>, True, extra)
        else if dest = ''stderr'' then (ns\<lparr>stderr := Some v\<rparr>, seen, extra)
        else if dest = ''yaml_config'' then (ns\<lparr>yaml_config := Some v\<rparr>, seen, extra)
        else (ns\<lparr>cmd_name := Some v\<rparr>, seen, extra))"

definition store_true :: "option_kind \<Rightarrow> parse_state \<Rightarrow> parse_state" where
  "store_true k st =
     (case st of (ns, seen, extra) \<Rightarrow>
        if k = OptClear then (ns\<lparr>clear := True\<rparr>, seen, extra) else (ns\<lparr>lite := True\<rparr>, seen, extra))"

definition store_copydirs :: "string list \<Rightarrow> parse_state \<Rightarrow> parse_state" where
  "store_copydirs vs st = (case st of (ns, seen, extra) \<Rightarrow> (ns\<lparr>copydirs := vs\<rparr>, seen, extra))"

definition leftover :: "parse_state \<Rightarrow> parse_state" where
  "leftover st = (case st of (ns, seen, extra) \<Rightarrow> (ns, seen, True))"

definition finish :: "parse_state \<Rightarrow> parse_outcome" where
  "finish st = (case st of (ns, seen, extra) \<Rightarrow> if \<not> seen \<or> extra then UsageError else Parsed ns)"

text \<open>
  One word that follows an option taking one value: the value, unless the word is missing
  or looks like an option.
\<close>

definition one_value :: "string list \<Rightarrow> string option" where
  "one_value ts = (case ts of [] \<Rightarrow> None | v # ts' \<Rightarrow> if optionlike v then None else Some v)"

fun parse_opts :: "string list \<Rightarrow> parse_state \<Rightarrow> parse_outcome"
  and parse_copydirs :: "string list \<Rightarrow> string list \<Rightarrow> parse_state \<Rightarrow> parse_outcome"
where
  "parse_opts [] st = finish st"
| "parse_opts (t # ts) st =
     (case classify t of
        OptHelp \<Rightarrow> HelpRequested
      | OptClear \<Rightarrow> parse_opts ts (store_true OptClear st)
      | OptLite \<Rightarrow> parse_opts ts (store_true OptLite st)
      | OptCopydirs \<Rightarrow> parse_copydirs [] ts st
      | OptValue dest \<Rightarrow>
          (case one_value ts of
             None \<Rightarrow> UsageError
           | Some v \<Rightarrow> parse_opts (tl ts) (store dest v st))
      | NoOption \<Rightarrow> parse_opts ts (leftover st))"
| "parse_copydirs acc [] st =
     (if acc = [] then UsageError else finish (store_copydirs acc st))"
| "parse_copydirs acc (t # ts) st =
     (if optionlike t then
        (if acc = [] then UsageError else parse_opts (t # ts) (store_copydirs acc st))
      else parse_copydirs (acc @ [t]) ts st)"

definition default_args :: args where
  "default_args = \<lparr>outdir = ''./'', clear = False, lite = False, stdout = [], stderr = None,
                    yaml_config = None, cmd_name = None, copydirs = []\<rparr>"

definition argparse_parse_args :: "string list \<Rightarrow> parse_outcome" where
  "argparse_parse_args argv = parse_opts argv (default_args, False, False)"

text \<open>How the process ends: \<^verbatim>\<open>sys.exit(n)\<close> or falling off the end (status 0), or an uncaught exception.\<close>

datatype outcome = Exit nat | Uncaught exn

definition print_help :: "world \<Rightarrow> world" where
  "print_help w = w\<lparr>out := out w @ [HelpText]\<rparr>"

text \<open>
  \<^verbatim>\<open>GatherInfoDockerArgParser.parse_args\<close>. The parser of the library ends the process
  itself: with status 2 after a usage message on an error, with status 0 after the help.
\<close>

definition parse_args :: "string \<Rightarrow> string list \<Rightarrow> world \<Rightarrow> (outcome + args) \<times> world" where
  "parse_args script argv w =
     (case argparse_parse_args argv of
        UsageError \<Rightarrow> (Inl (Exit 2), w\<lparr>out := out w @ [UsageMessage]\<rparr>)
      | HelpRequested \<Rightarrow> (Inl (Exit 0), print_help w)
      | Parsed a \<Rightarrow>
          (let a' = a\<lparr>outdir := path_str (joinpath (get_canonical_path w (outdir a)) (TMPDIR w script))\<rparr> in
           if euid w \<noteq> 0 then
             (Inl (Exit 1),
              print_help (w\<lparr>out := out w @ [Printed ''*** Rerun this script as user 'root' or as sudo ***\<newline>\<newline>'']\<rparr>))
           else (Inr a', w)))"


subsection \<open>SnapshotScriptDocker\<close>

text \<open>
  The object holds \<open>args\<close> and \<open>outdir_path\<close>; the methods below take them (and the shell)
  as arguments.
\<close>

definition generateHeader :: "string \<Rightarrow> string \<Rightarrow> action" where
  "generateHeader str sep =
     do_all [print ''\<newline>'',
             print (concat (replicate 80 sep)),
             print str,
             print (concat (replicate 80 sep))]"

definition get_outdir_filename :: "path \<Rightarrow> string \<Rightarrow> string" where
  "get_outdir_filename outdir_path filename = path_str (joinpath outdir_path filename)"

text \<open>
  \<^verbatim>\<open>run_cmd\<close> prints the command, starts it under \<^verbatim>\<open>/bin/bash\<close> and waits for it. The
  exit status that \<^verbatim>\<open>proc.wait()\<close> returns is dropped.
\<close>

definition run_cmd :: "shell \<Rightarrow> string \<Rightarrow> action" where
  "run_cmd sh cmd =
     do_all [print cmd,
             (\<lambda>w. case sh cmd w of
                     None \<Rightarrow> Inl (OSError ''/bin/bash'', w)
                   | Some (status, r) \<Rightarrow> Inr (w\<lparr>root := r\<rparr>))]"

definition saveFile :: "shell \<Rightarrow> path \<Rightarrow> string \<Rightarrow> string option \<Rightarrow> action" where
  "saveFile sh outdir_path info_file_name info_file_type =
     (case info_file_type of
        Some t \<Rightarrow>
          std_file t (\<lambda>name.
            run_cmd sh (''cp -r -f -L --preserve=timestamps '' @ info_file_name @ '' '' @
                        get_outdir_filename outdir_path name))
      | None \<Rightarrow>
          run_cmd sh (''cp -r -f -L --preserve=timestamps '' @ info_file_name @ '' '' @
                      get_outdir_filename outdir_path info_file_name))"

definition saveFileNoSymlink :: "shell \<Rightarrow> path \<Rightarrow> string \<Rightarrow> string option \<Rightarrow> action" where
  "saveFileNoSymlink sh outdir_path info_file_name info_file_type =
     (case info_file_type of
        Some t \<Rightarrow>
          std_file t (\<lambda>name.
            run_cmd sh (''cp -r -f --preserve=timestamps '' @ info_file_name @ '' '' @
                        get_outdir_filename outdir_path name))
      | None \<Rightarrow>
          run_cmd sh (''cp -r -f --preserve=timestamps '' @ info_file_name @ '' '' @
                      get_outdir_filename outdir_path info_file_name))"

definition saveTmpFile :: "shell \<Rightarrow> args \<Rightarrow> path \<Rightarrow> string \<Rightarrow> action" where
  "saveTmpFile sh a outdir_path info_file_type =
     std_file info_file_type (\<lambda>name.
       run_cmd sh (''mv '' @ outdir a @ ''/'' @ TMPFILENAME @ '' '' @ get_outdir_filename outdir_path name))"

definition saveCmdOutputs :: "shell \<Rightarrow> args \<Rightarrow> path \<Rightarrow> action" where
  "saveCmdOutputs sh a outdir_path w =
     reraise ''Error in saveCmdOutputs''
       (do_all
          [generateHeader ''Saving command outputs'' ''='',
           (\<lambda>w. if os_path_exists w (stdout a) then
                   saveFile sh outdir_path (stdout a) (Some ''stdout'') w
                 else
                   do_all [print (''The filename specified by '' @ stdout a @ '' does not exist''),
                           raise (Exception (stdout a @ '' is not a valid filename''))] w),
           (\<lambda>w. case stderr a of
                   None \<Rightarrow> Inr w
                 | Some e \<Rightarrow>
                     (if os_path_exists w e then
                        saveFile sh outdir_path e (Some ''stderr'') w
                      else
                        do_all [print (''The filename specified by '' @ e @ '' does not exist''),
                                raise (Exception (e @ '' is not a valid filename''))] w))] w)"

text \<open>\<open>script\<close> is \<^verbatim>\<open>__file__\<close>, the script as it was started.\<close>

definition saveCmdlineAndOptions :: "shell \<Rightarrow> string \<Rightarrow> args \<Rightarrow> path \<Rightarrow> action" where
  "saveCmdlineAndOptions sh script a outdir_path w =
     reraise ''Error in saveCmdlineAndOptions''
       (do_all
          [(\<lambda>w. case cmd_name a of
                   None \<Rightarrow> Inr w
                 | Some c \<Rightarrow>
                     do_all
                       [generateHeader ''Saving training command line along with options'' ''='',
                        run_cmd sh ''history -a'',
                        std_file ''cmdline'' (\<lambda>name.
                          run_cmd sh (''grep '' @ c @ '' $HOME/.bash_history | grep -v '' @
                                      str_basename script @ '' | tail -1 > '' @
                                      get_outdir_filename outdir_path name))] w),
           (\<lambda>w. case yaml_config a of
                   None \<Rightarrow> Inr w
                 | Some y \<Rightarrow>
                     do_all
                       [generateHeader ''Saving YAML configuration file used to run training'' ''='',
                        saveFile sh outdir_path y (Some ''yamlconfig'')] w)] w)"

definition saveEnvVars :: "shell \<Rightarrow> path \<Rightarrow> action" where
  "saveEnvVars sh outdir_path w =
     reraise ''Error in saveEnvVars''
       (do_all
          [generateHeader ''Saving environment variables'' ''='',
           (\<lambda>w. if os_path_exists w (get_outdir_filename outdir_path TMPFILENAME) then
                   os_remove (get_outdir_filename outdir_path TMPFILENAME) w
                 else Inr w),
           std_file ''envvars'' (\<lambda>name.
             run_cmd sh (''env > '' @ get_outdir_filename outdir_path name))] w)"

text \<open>\<^verbatim>\<open>f"{logs_path}/*"\<close> where \<^verbatim>\<open>os.getenv\<close> may have returned \<^verbatim>\<open>None\<close>.\<close>

definition getenv_str :: "world \<Rightarrow> string \<Rightarrow> string" where
  "getenv_str w name = (case map_of (environ w) name of None \<Rightarrow> ''None'' | Some v \<Rightarrow> v)"

definition saveHabanaLogs :: "shell \<Rightarrow> path \<Rightarrow> action" where
  "saveHabanaLogs sh outdir_path w =
     reraise ''Error in saveHabanaLogs''
       (do_all
          [generateHeader ''Saving Habana log files'' ''='',
           std_file ''habanalogs'' (\<lambda>name. os_makedirs (get_outdir_filename outdir_path name)),
           (\<lambda>w. saveFile sh outdir_path (getenv_str w ''HABANA_LOGS'' @ ''/*'') (Some ''habanalogs'') w)] w)"

text \<open>
  \<^verbatim>\<open>isValidDirToCopy(start_path, outdir_basename)\<close>. The first argument is what
  \<^verbatim>\<open>os.scandir(start_path)\<close> yields: the entries of the directory, each with its name
  (\<^verbatim>\<open>os.path.basename(entry.path)\<close>) and its node; \<^verbatim>\<open>entry.is_dir()\<close> holds of a \<open>Dir\<close>.
\<close>

fun isValidDirToCopy :: "(string \<times> node) list \<Rightarrow> string \<Rightarrow> bool" where
  "isValidDirToCopy [] outdir_basename = True"
| "isValidDirToCopy ((name, Dir sub) # es) outdir_basename =
     (if name = outdir_basename \<or> \<not> isValidDirToCopy sub outdir_basename then False
      else isValidDirToCopy es outdir_basename)"
| "isValidDirToCopy ((name, File v) # es) outdir_basename = isValidDirToCopy es outdir_basename"
| "isValidDirToCopy ((name, Archive ms) # es) outdir_basename = isValidDirToCopy es outdir_basename"

text \<open>\<^verbatim>\<open>os.path.join(start_path, name)\<close>, which is \<^verbatim>\<open>entry.path\<close>.\<close>

definition os_path_join :: "string \<Rightarrow> string \<Rightarrow> string" where
  "os_path_join a b = (if a \<noteq> [] \<and> last a = CHR ''/'' then a @ b else a @ ''/'' @ b)"

text \<open>The loop of \<^verbatim>\<open>getHomeDirContentToSave\<close> over the entries of the home directory.\<close>

fun home_entries_to_save :: "string \<Rightarrow> string \<Rightarrow> (string \<times> node) list \<Rightarrow> string list" where
  "home_entries_to_save start_path outdir_basename [] = []"
| "home_entries_to_save start_path outdir_basename ((name, n) # es) =
     (if is_dir_node (Some n) \<and> name \<noteq> outdir_basename \<and>
         (case n of Dir sub \<Rightarrow> isValidDirToCopy sub outdir_basename | _ \<Rightarrow> False) then
        os_path_join start_path name # home_entries_to_save start_path outdir_basename es
      else if is_file_node (Some n) then
        os_path_join start_path name # home_entries_to_save start_path outdir_basename es
      else home_entries_to_save start_path outdir_basename es)"

definition getHomeDirContentToSave :: "path \<Rightarrow> world \<Rightarrow> (string list) result" where
  "getHomeDirContentToSave outdir_path w =
     (let start_path = get_canonical_path w ''$HOME'';
          outdir_basename = basename (parent outdir_path) in
      case lookup (root w) start_path of
        None \<Rightarrow> Inl (FileNotFoundError (path_str start_path), w)
      | Some (Dir es) \<Rightarrow>
          (let sv_files = home_entries_to_save (path_str start_path) outdir_basename es in
           Inr (sv_files, w\<lparr>out := out w @ map Printed sv_files\<rparr>))
      | Some n \<Rightarrow> Inl (NotADirectoryError (path_str start_path), w))"

text \<open>The text \<^verbatim>\<open>print\<close> shows for a list of strings (without escapes inside the strings).\<close>

fun commas :: "string list \<Rightarrow> string" where
  "commas [] = []"
| "commas [x] = x"
| "commas (x # y # ys) = x @ '', '' @ commas (y # ys)"

definition list_repr :: "string list \<Rightarrow> string" where
  "list_repr xs = ''['' @ commas (map (\<lambda>x. [CHR 0x27] @ x @ [CHR 0x27]) xs) @ '']''"

definition saveModelSpecificArtifacts :: "shell \<Rightarrow> args \<Rightarrow> path \<Rightarrow> action" where
  "saveModelSpecificArtifacts sh a outdir_path w =
     (if lite a then
        generateHeader ''Skipping copying model artifacts, datasets, training run output directories, and other contents of $HOME since --lite option is specified...'' ''='' w
      else
        reraise ''Error in saveModelSpecificArtifacts''
          (do_all
             [generateHeader ''Saving model artifacts, datasets, training run output directories, and other contents of $HOME'' ''='',
              std_file ''dockerc_homedir'' (\<lambda>name. os_makedirs (get_outdir_filename outdir_path name)),
              (\<lambda>w. case getHomeDirContentToSave outdir_path w of
                      Inl e \<Rightarrow> Inl e
                    | Inr (files_dirs_to_save, w') \<Rightarrow>
                        do_all
                          (print (''files_dirs_to_save:  '' @ list_repr files_dirs_to_save) #
                           map (\<lambda>sv_file. saveFile sh outdir_path sv_file (Some ''dockerc_homedir''))
                               files_dirs_to_save) w')] w))"

text \<open>The body of the loop of \<^verbatim>\<open>saveAdditionalCopyDirs\<close>, for one entry of \<open>copydirs\<close>.\<close>

definition copy_dir_entry :: "shell \<Rightarrow> path \<Rightarrow> string \<Rightarrow> action" where
  "copy_dir_entry sh outdir_path sv_file w =
     (if os_path_exists w sv_file then
        saveFileNoSymlink sh outdir_path sv_file (Some ''dockerc_copydir'') w
      else
        print (''Skipping '' @ sv_file @ '' from copydirs since this path does not exist'') w)"

definition saveAdditionalCopyDirs :: "shell \<Rightarrow> args \<Rightarrow> path \<Rightarrow> action" where
  "saveAdditionalCopyDirs sh a outdir_path w =
     reraise ''Error in saveAdditionalCopyDirs''
       (if copydirs a \<noteq> [] then
          do_all
            ([generateHeader ''Saving user-specified copydirs'' ''='',
              print (''copydirs = '' @ list_repr (copydirs a)),
              std_file ''dockerc_copydir'' (\<lambda>name. os_makedirs (get_outdir_filename outdir_path name))] @
             map (copy_dir_entry sh outdir_path) (copydirs a)) w
        else Inr w)"

definition saveDockerRunParameters :: "shell \<Rightarrow> path \<Rightarrow> action" where
  "saveDockerRunParameters sh outdir_path w =
     reraise ''Error in saveDockerRunParameters''
       (do_all
          [generateHeader ''Saving container command history, packages list, disk usage'' ''='',
           run_cmd sh ''history -a'',
           saveFile sh outdir_path ''$HOME/.bash_history'' (Some ''dockerc_history''),
           std_file ''dockerc_pypkgs'' (\<lambda>name.
             run_cmd sh (''pip3 list > '' @ get_outdir_filename outdir_path name)),
           std_file ''dockerc_diskusage'' (\<lambda>name.
             run_cmd sh (''du -s -h ~/ > '' @ get_outdir_filename outdir_path name))] w)"

definition saveMachineStatus :: "shell \<Rightarrow> path \<Rightarrow> action" where
  "saveMachineStatus sh outdir_path w =
     reraise ''Error in saveMachineStatus''
       (do_all
          [generateHeader ''Saving machine-specific information (hl-smi, cpuinfo, etc.)'' ''='',
           std_file ''machine_hostname'' (\<lambda>name.
             run_cmd sh (''hostname > '' @ get_outdir_filename outdir_path name)),
           std_file ''machine_ipaddr'' (\<lambda>name.
             run_cmd sh (''hostname -I > '' @ get_outdir_filename outdir_path name)),
           std_file ''machine_hlsmi'' (\<lambda>name.
             run_cmd sh (''hl-smi -q > '' @ get_outdir_filename outdir_path name)),
           std_file ''machine_lspci'' (\<lambda>name.
             run_cmd sh (''lspci > '' @ get_outdir_filename outdir_path name)),
           std_file ''machine_cpuinfo'' (\<lambda>name.
             run_cmd sh (''cat /proc/cpuinfo > '' @ get_outdir_filename outdir_path name)),
           std_file ''machine_cpumode'' (\<lambda>name.
             run_cmd sh (''cat /sys/devices/system/cpu/cpu*/cpufreq/scaling_governor > '' @
                         get_outdir_filename outdir_path name))] w)"


definition savePythonInstallationInfo :: "path \<Rightarrow> action" where
  "savePythonInstallationInfo outdir_path =
     std_file ''python_info'' (\<lambda>name.
       (let OUTPUT_FILE = get_outdir_filename outdir_path name in
        do_all
          [print (''Saving python installation info to '' @ OUTPUT_FILE),
           open_file False OUTPUT_FILE,
           (\<lambda>w. case those (map (map_of (platform w))
                              [''python_version'', ''python_branch'', ''python_build'',
                               ''python_compiler'', ''python_implementation'']) of
                   Some [v, b, bv, c, i] \<Rightarrow>
                     file_write OUTPUT_FILE
                       (''python version: '' @ v @ ''\<newline>python branch: '' @ b @
                        ''\<newline>python build version: '' @ bv @
                        ''\<newline>python compiler version: '' @ c @
                        ''\<newline>python implementation: '' @ i @ ''\<newline>'') w
                 | _ \<Rightarrow> raise (AttributeError ''platform'') w)]))"

text \<open>The inner \<^verbatim>\<open>helper(tag, fn)\<close> of \<^verbatim>\<open>saveOSVersionInfo\<close>: the line it prints to the file.\<close>

definition helper :: "world \<Rightarrow> string \<Rightarrow> string \<Rightarrow> string" where
  "helper w tag fn =
     (case map_of (platform w) fn of
        Some v \<Rightarrow> tag @ '':  '' @ v @ ''\<newline>''
      | None \<Rightarrow> ''Failed to run  '' @ fn @ ''\<newline>'')"

definition saveOSVersionInfo :: "path \<Rightarrow> action" where
  "saveOSVersionInfo outdir_path =
     std_file ''platform_config_info'' (\<lambda>name.
       (let OUTPUT_FILE = get_outdir_filename outdir_path name in
        do_all
          [print (''Saving platform configuration info to '' @ OUTPUT_FILE),
           open_file False OUTPUT_FILE,
           (\<lambda>w. file_write OUTPUT_FILE
                   (helper w ''os'' ''system'' @
                    helper w ''os kernel version'' ''version'' @
                    helper w ''os release version'' ''release'' @
                    helper w ''os platform'' ''platform'' @
                    helper w ''linux distribution'' ''linux_distribution'' @
                    helper w ''linux os distribution'' ''dist'' @
                    helper w ''mac version'' ''mac_ver'' @
                    helper w ''uname'' ''uname'' @
                    helper w ''architecture'' ''architecture'' @
                    helper w ''machine'' ''machine'' @
                    (case distro w of
                       Some d \<Rightarrow> ''Distro info '' @ d @ ''\<newline>''
                     | None \<Rightarrow> ''distro not available\<newline>'')) w)]))"

text \<open>\<^verbatim>\<open>os.environ.get(name)\<close> as a condition: set and not empty.\<close>

definition environ_set :: "world \<Rightarrow> string \<Rightarrow> bool" where
  "environ_set w name = (case map_of (environ w) name of None \<Rightarrow> False | Some v \<Rightarrow> v \<noteq> [])"

definition find_cmd :: "string \<Rightarrow> string \<Rightarrow> string" where
  "find_cmd pattern OUTPUT_FILE =
     ''find /usr/local -type f -name '' @ [CHR 0x27] @ pattern @ [CHR 0x27] @
     ''  2>/dev/null  |  grep -v '' @ [CHR 0x27, CHR 0x5C] @ ''.cache'' @ [CHR 0x27] @
     '' >> '' @ OUTPUT_FILE"

definition saveSynapseLibsInfo :: "shell \<Rightarrow> path \<Rightarrow> action" where
  "saveSynapseLibsInfo sh outdir_path =
     std_file ''synapse_libs_info'' (\<lambda>name.
       (let OUTPUT_FILE = get_outdir_filename outdir_path name in
        do_all
          [print (''Saving LD_LIBRARY_PATH setting to '' @ OUTPUT_FILE),
           open_file False OUTPUT_FILE,
           (\<lambda>w. file_write OUTPUT_FILE
                   (if environ_set w ''LD_LIBRARY_PATH''
                    then ''LD_LIBRARY_PATH '' @ getenv_str w ''LD_LIBRARY_PATH'' @ ''\<newline>''
                    else ''LD_LIBRARY_PATH is unset\<newline>'') w),
           print (''Saving DYLD_LIBRARY_PATH setting to '' @ OUTPUT_FILE),
           (\<lambda>w. file_write OUTPUT_FILE
                   (if environ_set w ''DYLD_LIBRARY_PATH''
                    then ''DYLD_LIBRARY_PATH '' @ getenv_str w ''DYLD_LIBRARY_PATH'' @ ''\<newline>''
                    else ''DYLD_LIBRARY_PATH is unset\<newline>'') w),
           print (''Saving Synapse libs info to '' @ OUTPUT_FILE),
           run_cmd sh (''find /usr/local -type f -name '' @ [CHR 0x27] @ ''libsynapse_helpers*'' @ [CHR 0x27] @
                       ''  2>/dev/null |  grep -v '' @ [CHR 0x27, CHR 0x5C] @ ''.cache'' @ [CHR 0x27] @
                       '' >> '' @ OUTPUT_FILE),
           run_cmd sh (find_cmd ''synapse_logger*'' OUTPUT_FILE),
           run_cmd sh (find_cmd ''libhccl*'' OUTPUT_FILE),
           run_cmd sh (find_cmd ''graph_writer*'' OUTPUT_FILE),
           run_cmd sh (find_cmd ''habana_device*'' OUTPUT_FILE),
           run_cmd sh (find_cmd ''synapse_logger*'' OUTPUT_FILE)]))"

text \<open>\<^verbatim>\<open>distutils.spawn.find_executable(name) is not None\<close>\<close>

definition find_executable :: "world \<Rightarrow> string \<Rightarrow> bool" where
  "find_executable w name = (name \<in> set (executables w))"

definition savePackageInfo :: "shell \<Rightarrow> path \<Rightarrow> action" where
  "savePackageInfo sh outdir_path =
     std_file ''package_info'' (\<lambda>name w.
       (let OUTPUT_FILE = get_outdir_filename outdir_path name;
            found_dpkg = find_executable w ''dpkg'';
            found_rpm = find_executable w ''rpm'';
            command_helper = (\<lambda>pkg. pkg @ '' -l | grep habanalabs >> '' @ OUTPUT_FILE);
            cmd = (if found_dpkg then command_helper ''dpkg''
                   else if found_rpm then command_helper ''rpm''
                   else ''echo '' @ [CHR 0x27] @ ''Did not find dpkg or rpm package managers'' @
                        [CHR 0x27] @ '' >> '' @ OUTPUT_FILE)
        in run_cmd sh cmd w))"

definition saveDmesgInfo :: "shell \<Rightarrow> path \<Rightarrow> action" where
  "saveDmesgInfo sh outdir_path =
     std_file ''dmesg_info'' (\<lambda>name.
       run_cmd sh (''dmesg >> '' @ get_outdir_filename outdir_path name))"

definition saveSystemConfig :: "shell \<Rightarrow> path \<Rightarrow> action" where
  "saveSystemConfig sh outdir_path w =
     reraise ''Error in saveSystemConfig''
       (do_all
          [generateHeader ''Saving miscellaneous system configuration info'' ''='',
           savePythonInstallationInfo outdir_path,
           saveOSVersionInfo outdir_path,
           saveSynapseLibsInfo sh outdir_path,
           savePackageInfo sh outdir_path,
           saveDmesgInfo sh outdir_path] w)"

definition generateTarball :: "shell \<Rightarrow> path \<Rightarrow> action" where
  "generateTarball sh outdir_path w =
     reraise ''Error in generateTarball''
       (let parent_dir = path_str (parent outdir_path);
            tardir_name = basename outdir_path;
            tarfile_name = tardir_name @ ''.tar.gz''
        in do_all
             [run_cmd sh (''chmod -R 755 '' @ path_str outdir_path),
              generateHeader (''Generating '' @ parent_dir @ ''/'' @ tardir_name @ ''.tar.gz'') ''='',
              os_chdir parent_dir,
              print (''Creating '' @ tarfile_name @ ''...''),
              tarfile_open_x tarfile_name,
              tar_add tarfile_name tardir_name,
              run_cmd sh (''chmod -R 755 '' @ tarfile_name)] w)"

definition uploadTarball :: action where
  "uploadTarball w = Inr w"

definition run :: "shell \<Rightarrow> string \<Rightarrow> args \<Rightarrow> path \<Rightarrow> action" where
  "run sh script a outdir_path =
     do_all
       [saveCmdOutputs sh a outdir_path,
        saveCmdlineAndOptions sh script a outdir_path,
        saveEnvVars sh outdir_path,
        saveHabanaLogs sh outdir_path,
        saveModelSpecificArtifacts sh a outdir_path,
        saveAdditionalCopyDirs sh a outdir_path,
        saveDockerRunParameters sh outdir_path,
        saveMachineStatus sh outdir_path,
        saveSystemConfig sh outdir_path,
        generateTarball sh outdir_path,
        uploadTarball,
        print ''Snapshot script completed successfully (from docker container)'']"

text \<open>The collection steps that \<^verbatim>\<open>run\<close> calls, in its order, each under the name of its method.\<close>

definition collection_steps :: "shell \<Rightarrow> string \<Rightarrow> args \<Rightarrow> path \<Rightarrow> (string \<times> action) list" where
  "collection_steps sh script a outdir_path =
     [(''saveCmdOutputs'', saveCmdOutputs sh a outdir_path),
      (''saveCmdlineAndOptions'', saveCmdlineAndOptions sh script a outdir_path),
      (''saveEnvVars'', saveEnvVars sh outdir_path),
      (''saveHabanaLogs'', saveHabanaLogs sh outdir_path),
      (''saveModelSpecificArtifacts'', saveModelSpecificArtifacts sh a outdir_path),
      (''saveAdditionalCopyDirs'', saveAdditionalCopyDirs sh a outdir_path),
      (''saveDockerRunParameters'', saveDockerRunParameters sh outdir_path),
      (''saveMachineStatus'', saveMachineStatus sh outdir_path),
      (''saveSystemConfig'', saveSystemConfig sh outdir_path),
      (''generateTarball'', generateTarball sh outdir_path)]"

subsection \<open>main\<close>

text \<open>\<^verbatim>\<open>" ".join(sys.argv)\<close>\<close>

fun spaces :: "string list \<Rightarrow> string" where
  "spaces [] = []"
| "spaces [x] = x"
| "spaces (x # y # ys) = x @ '' '' @ spaces (y # ys)"

text \<open>
  \<^verbatim>\<open>sys.argv\<close> is \<open>script # argv\<close>. An exception that leaves \<^verbatim>\<open>main\<close> ends the process
  with a traceback.
\<close>

definition main :: "shell \<Rightarrow> string \<Rightarrow> string list \<Rightarrow> world \<Rightarrow> outcome \<times> world" where
  "main sh script argv w =
     (if length (script # argv) = 1 then (Exit 1, print_help w)
      else
        (case parse_args script argv w of
           (Inl ending, w1) \<Rightarrow> (ending, w1)
         | (Inr a, w1) \<Rightarrow>
             (case create_output_dir (outdir a) (clear a) w1 of
                Inl (e, w2) \<Rightarrow> (Uncaught e, w2)
              | Inr (outdir_path, w2) \<Rightarrow>
                  (case do_all
                          [open_file True (path_str (joinpath outdir_path (EXECCMDLINEFILE w script))),
                           file_write (path_str (joinpath outdir_path (EXECCMDLINEFILE w script)))
                             (''Command executed as: python3 '' @ spaces (script # argv) @ ''\<newline>''),
                           run sh script a outdir_path] w2 of
                     Inl (e, w3) \<Rightarrow> (Uncaught e, w3)
                   | Inr w3 \<Rightarrow> (Exit 0, w3)))))"


section \<open>Concrete environments\<close>

text \<open>A shell in which every command exits with status 1 and changes nothing.\<close>

definition sh_fail :: shell where
  "sh_fail cmd w = Some (1, root w)"

text \<open>A machine on which \<^verbatim>\<open>/bin/bash\<close> cannot be started.\<close>

definition sh_absent :: shell where
  "sh_absent cmd w = None"

text \<open>
  A small shell for the command lines this program issues. It looks at the first word of
  the command and at its last two words, with \<open>$NAME\<close> expanded in the latter. A command
  that ends in \<open>> file\<close> writes the file and one that ends in \<open>>> file\<close> extends it (the
  text written is the name of the program, standing for its output); \<open>cp ... src dst\<close>
  copies the tree at \<open>src\<close> to \<open>dst\<close>, or into \<open>dst\<close> when that is a directory, and fails
  when \<open>src\<close> does not exist; every other command succeeds and changes nothing.
\<close>

definition first_word :: "string \<Rightarrow> string" where
  "first_word s = takeWhile (\<lambda>c. c \<noteq> CHR '' '') (dropWhile (\<lambda>c. c = CHR '' '') s)"

definition last_word :: "string \<Rightarrow> string" where
  "last_word s = rev (first_word (rev s))"

definition but_last_word :: "string \<Rightarrow> string" where
  "but_last_word s = rev (dropWhile (\<lambda>c. c \<noteq> CHR '' '') (dropWhile (\<lambda>c. c = CHR '' '') (rev s)))"

definition sh_write :: "bool \<Rightarrow> world \<Rightarrow> string \<Rightarrow> string \<Rightarrow> (int \<times> node) option" where
  "sh_write app w target text =
     (let p = resolve w target;
          old = (case lookup (root w) p of Some (File v) \<Rightarrow> (if app then v else []) | _ \<Rightarrow> [])
      in case lookup (root w) p of
           Some (Dir es) \<Rightarrow> Some (1, root w)
         | _ \<Rightarrow> (case put (root w) p (File (old @ text)) of
                   None \<Rightarrow> Some (1, root w)
                 | Some r \<Rightarrow> Some (0, r)))"

definition sh_cp :: "world \<Rightarrow> string \<Rightarrow> string \<Rightarrow> (int \<times> node) option" where
  "sh_cp w src dst =
     (case lookup (root w) (resolve w src) of
        None \<Rightarrow> Some (1, root w)
      | Some n \<Rightarrow>
          (let target = (if os_path_isdir w dst then resolve w dst @ [str_basename src]
                         else resolve w dst)
           in case put (root w) target n of
                None \<Rightarrow> Some (1, root w)
              | Some r \<Rightarrow> Some (0, r)))"

definition sh_ref :: shell where
  "sh_ref cmd w =
     (let target = expandvars w (last_word cmd);
          prev = expandvars w (last_word (but_last_word cmd));
          prog = first_word cmd in
      if prev = ''>'' then sh_write False w target (prog @ ''\<newline>'')
      else if prev = ''>>'' then sh_write True w target (prog @ ''\<newline>'')
      else if prog = ''cp'' \<and> prev \<noteq> [] \<and> prev \<noteq> ''cp'' then sh_cp w prev target
      else Some (0, root w))"

text \<open>
  A container: the log of a training run in \<open>/tmp\<close>, the home directory of root with its
  shell history, two directories and a file.
\<close>

definition world0 :: world where
  "world0 =
     \<lparr>root = Dir [(''tmp'', Dir [(''run.log'', File ''epoch 1 done'')]),
                  (''root'', Dir [(''.bash_history'', File ''python3 train.py''),
                                 (''project'', Dir [(''snap'', Dir [(''old.txt'', File ''x'')])]),
                                 (''models'', Dir [(''ckpt'', Dir [])]),
                                 (''snap'', File ''notes'')])],
      cwd = ''/root'',
      environ = [(''HOME'', ''/root'')],
      euid = 0,
      out = [],
      platform = [(''python_version'', ''3.8.10''), (''python_branch'', []),
                  (''python_build'', ''default''), (''python_compiler'', ''GCC 9.4.0''),
                  (''python_implementation'', ''CPython''), (''system'', ''Linux''),
                  (''machine'', ''x86_64'')],
      distro = None,
      executables = [''dpkg'']\<rparr>"

text \<open>
  The same container after earlier runs: a regular file sits at \<open>/tmp/snap\<close>, and archives
  of earlier snapshots lie beside the places \<open>/tmp/snap\<close> and \<open>/tmp/out\<close>.
\<close>

definition world1 :: world where
  "world1 =
     world0\<lparr>root := Dir [(''tmp'', Dir [(''run.log'', File ''epoch 1 done''),
                                        (''snap'', File ''junk''),
                                        (''snap.tar.gz'', Archive [(''snap'', Dir [])]),
                                        (''out.tar.gz'', Archive [(''out'', Dir [])])]),
                         (''root'', Dir [(''.bash_history'', File ''python3 train.py'')])]\<rparr>"

text \<open>
  The container once \<^verbatim>\<open>create_output_dir\<close> has made the output directory
  \<open>/tmp/snap/gather_info_docker\<close>, which is where \<open>-o /tmp/snap\<close> leads when the script is
  \<open>gather_info_docker.py\<close>.
\<close>

definition world_ready :: world where
  "world_ready =
     world0\<lparr>root := Dir [(''tmp'', Dir [(''run.log'', File ''epoch 1 done''),
                                        (''snap'', Dir [(''gather_info_docker'', Dir [])])]),
                         (''root'', Dir [(''.bash_history'', File ''python3 train.py'')])]\<rparr>"

definition outdir0 :: path where
  "outdir0 = [''tmp'', ''snap'', ''gather_info_docker'']"

text \<open>The namespace for \<open>-o /tmp/snap -s /tmp/run.log --lite\<close>, and what follows the script name there.\<close>

definition args_lite :: args where
  "args_lite = default_args\<lparr>outdir := ''/tmp/snap/gather_info_docker'', lite := True,
                            stdout := ''/tmp/run.log''\<rparr>"

definition argv_lite :: "string list" where
  "argv_lite = [''-o'', ''/tmp/snap'', ''-s'', ''/tmp/run.log'', ''--lite'']"

text \<open>The same with a log that does not exist.\<close>

definition args_nolog :: args where
  "args_nolog = default_args\<lparr>outdir := ''/tmp/snap/gather_info_docker'', lite := True,
                             stdout := ''/tmp/nolog''\<rparr>"

text \<open>The same with two extra paths to copy, of which the first does not exist.\<close>

definition args_copydirs :: args where
  "args_copydirs = args_lite\<lparr>copydirs := [''/nonexistent'', ''/tmp/run.log'']\<rparr>"


section \<open>Properties\<close>

subsection \<open>Sequencing\<close>

lemma then_do_Inr_iff [simp]:
  "then_do r f = Inr w' \<longleftrightarrow> (\<exists>w1. r = Inr w1 \<and> f w1 = Inr w')"
  by (cases r) auto

lemma then_do_Inl_iff [simp]:
  "then_do r f = Inl e \<longleftrightarrow> r = Inl e \<or> (\<exists>w1. r = Inr w1 \<and> f w1 = Inl e)"
  by (cases r) auto

lemma do_all_single [simp]: "do_all [a] w = a w"
  by (cases "a w") simp_all

subsection \<open>The filesystem tree\<close>

lemma lookup_fresh_dirs: "lookup (fresh_dirs cs) cs = Some (Dir [])"
  by (induction cs) simp_all

lemma lookup_append:
  "lookup t (q @ r) = (case lookup t q of None \<Rightarrow> None | Some m \<Rightarrow> lookup m r)"
proof (induction t q rule: lookup.induct)
  case (1 n)
  show ?case by simp
next
  case (2 es c cs)
  then show ?case by (simp split: option.splits)
next
  case (3 v c cs)
  show ?case by simp
next
  case (4 ms c cs)
  show ?case by simp
qed

lemma lookup_mkdirs: "mkdirs t p s = Inr t' \<Longrightarrow> is_dir_node (lookup t' p)"
proof (induction t p s arbitrary: t' rule: mkdirs.induct)
  case (4 es c cs s)
  show ?case
  proof (cases "map_of es c")
    case None
    with 4 show ?thesis
      by (auto simp: is_dir_node_def lookup_fresh_dirs map_add_def split: option.splits)
  next
    case (Some x)
    with 4 show ?thesis
      by (auto simp: update_conv' split: sum.splits)
  qed
qed (auto simp: is_dir_node_def)

lemma lookup_del_same: "del t q = Some t' \<Longrightarrow> lookup t' q = None"
proof (induction t q arbitrary: t' rule: del.induct)
  case (2 es c)
  then show ?case by (auto simp: delete_conv' split: option.splits)
next
  case (3 es c d cs)
  then show ?case by (auto simp: update_conv' split: option.splits)
qed auto

lemma del_is_dir: "del t q = Some t' \<Longrightarrow> is_dir_node (Some t')"
  by (induction t q arbitrary: t' rule: del.induct)
     (auto simp: is_dir_node_def split: option.splits)

lemma lookup_del_other:
  "del t q = Some t' \<Longrightarrow> \<not> prefix q p \<Longrightarrow> is_dir_node (lookup t p) \<Longrightarrow>
   is_dir_node (lookup t' p)"
proof (induction t q arbitrary: t' p rule: del.induct)
  case (2 es c)
  then show ?case
    by (cases p) (auto simp: delete_conv' is_dir_node_def split: option.splits)
next
  case (3 es c d cs)
  show ?case
  proof (cases p)
    case Nil
    with 3 show ?thesis by (auto simp: is_dir_node_def split: option.splits)
  next
    case (Cons a as)
    with 3 show ?thesis
      by (auto simp: update_conv' split: option.splits)
  qed
qed auto

lemma file_not_above:
  assumes "is_file_node (lookup t q)" "is_dir_node (lookup t p)"
  shows "\<not> prefix q p"
proof
  assume "prefix q p"
  then obtain r where p: "p = q @ r" by (auto simp: prefix_def)
  show False
  proof (cases r)
    case Nil
    with p assms show ?thesis
      by (auto simp: is_dir_node_def is_file_node_def split: option.splits node.splits)
  next
    case (Cons c cs)
    with assms p show ?thesis
      by (auto simp: lookup_append is_file_node_def is_dir_node_def split: option.splits node.splits)
  qed
qed

lemma resolve_cwd: "cwd w' = cwd w \<Longrightarrow> resolve w' s = resolve w s"
  by (simp add: resolve_def)

lemma makedirs_path_isdir:
  "makedirs_path p w = Inr w' \<Longrightarrow> isdir w' p \<and> cwd w' = cwd w"
  by (auto simp: makedirs_path_def isdir_def dest: lookup_mkdirs split: sum.splits)

lemma remove_archive_keeps_dir:
  assumes d: "isdir w p"
    and r: "(if os_path_isfile w s then do_all [print m, os_remove s] w else Inr w) = Inr w'"
  shows "isdir w' p \<and> \<not> os_path_isfile w' s"
proof (cases "os_path_isfile w s")
  case False
  with r d show ?thesis by simp
next
  case True
  let ?w1 = "w\<lparr>out := out w @ [Printed m]\<rparr>"
  let ?q = "resolve w s"
  have q: "resolve ?w1 s = ?q" by (simp add: resolve_def)
  from True r have rm: "remove_path ?q s ?w1 = Inr w'"
    by (simp add: print_def os_remove_def q split: sum.splits)
  from True have f: "is_file_node (lookup (root w) ?q)"
    by (simp add: os_path_isfile_def isfile_def)
  from rm obtain r' where del: "del (root w) ?q = Some r'" and w': "w' = ?w1\<lparr>root := r'\<rparr>"
    by (auto simp: remove_path_def split: option.splits node.splits)
  from d have dp: "is_dir_node (lookup (root w) p)" by (simp add: isdir_def)
  from f dp have np: "\<not> prefix ?q p" by (rule file_not_above)
  from lookup_del_other [OF del np dp] have "isdir w' p" by (simp add: w' isdir_def)
  moreover have "resolve w' s = ?q" by (simp add: w' resolve_def)
  with lookup_del_same [OF del] have "\<not> os_path_isfile w' s"
    by (simp add: w' os_path_isfile_def isfile_def is_file_node_def)
  ultimately show ?thesis by simp
qed

lemma create_output_dir_result:
  assumes "create_output_dir requested clear_flag w = Inr (p, w')"
  obtains w2 where "p = get_canonical_path w requested" "isdir w2 p"
    "(if os_path_isfile w2 (path_str p @ ''.tar.gz'')
      then do_all [print (''*** Deleting existing file '' @ path_str p @ ''.tar.gz...\<newline>\<newline>''),
                   os_remove (path_str p @ ''.tar.gz'')] w2
      else Inr w2) = Inr w'"
  using assms
  unfolding create_output_dir_def reraise_def Let_def
  by (auto split: sum.splits prod.splits dest!: makedirs_path_isdir)


lemma del_succeeds: "lookup t q = Some n \<Longrightarrow> q \<noteq> [] \<Longrightarrow> \<exists>t'. del t q = Some t'"
proof (induction t q arbitrary: n rule: del.induct)
  case (3 es c d cs)
  from 3(2) obtain x where x: "map_of es c = Some x" and l: "lookup x (d # cs) = Some n"
    by (auto split: option.splits)
  from 3(1) [OF x l] obtain x' where "del x (d # cs) = Some x'" by auto
  with x show ?case by simp
qed (auto split: option.splits)

lemma mkdirs_after_del:
  "del t p = Some t' \<Longrightarrow> \<exists>t''. mkdirs t' p s = Inr t'' \<and> lookup t'' p = Some (Dir [])"
proof (induction t p arbitrary: t' rule: del.induct)
  case (2 es c)
  then show ?case by (auto simp: delete_conv' map_add_def split: option.splits)
next
  case (3 es c d cs)
  from 3(2) obtain x x' where x: "map_of es c = Some x" and d: "del x (d # cs) = Some x'"
    and t': "t' = Dir (AList.update c x' es)"
    by (auto split: option.splits)
  from 3(1) [OF x d] obtain x'' where m: "mkdirs x' (d # cs) s = Inr x''"
    and l: "lookup x'' (d # cs) = Some (Dir [])" by blast
  show ?case using m l by (simp add: t' update_conv')
qed auto

lemma lookup_del_unrelated:
  "del t q = Some t' \<Longrightarrow> \<not> prefix q p \<Longrightarrow> \<not> prefix p q \<Longrightarrow> lookup t' p = lookup t p"
proof (induction t q arbitrary: t' p rule: del.induct)
  case (2 es c)
  then show ?case by (cases p) (auto simp: delete_conv' split: option.splits)
next
  case (3 es c d cs)
  then show ?case by (cases p) (auto simp: update_conv' split: option.splits)
qed auto

lemma empty_dir_not_below:
  assumes "lookup t p = Some (Dir [])" "lookup t q \<noteq> None" "prefix p q"
  shows "q = p"
proof -
  from assms(3) obtain r where q: "q = p @ r" by (auto simp: prefix_def)
  with assms(1,2) show ?thesis by (cases r) (auto simp: lookup_append)
qed


lemma remove_archive_keeps_empty_dir:
  assumes d: "lookup (root w) p = Some (Dir [])"
  shows "\<exists>w'. (if os_path_isfile w s then do_all [print m, os_remove s] w else Inr w) = Inr w' \<and>
              lookup (root w') p = Some (Dir [])"
proof (cases "os_path_isfile w s")
  case False
  with d show ?thesis by simp
next
  case True
  let ?w1 = "w\<lparr>out := out w @ [Printed m]\<rparr>"
  let ?q = "resolve w s"
  have q: "resolve ?w1 s = ?q" by (simp add: resolve_def)
  from True have f: "is_file_node (lookup (root w) ?q)"
    by (simp add: os_path_isfile_def isfile_def)
  from d have dp: "is_dir_node (lookup (root w) p)" by (simp add: is_dir_node_def)
  from f dp have np: "\<not> prefix ?q p" by (rule file_not_above)
  then have "?q \<noteq> []" by auto
  moreover from f obtain n where n: "lookup (root w) ?q = Some n" "\<forall>es. n \<noteq> Dir es"
    by (auto simp: is_file_node_def split: option.splits node.splits)
  ultimately obtain r' where del: "del (root w) ?q = Some r'"
    using del_succeeds by blast
  have pn: "\<not> prefix p ?q"
  proof
    assume "prefix p ?q"
    with d n have "?q = p" by (intro empty_dir_not_below) auto
    with d n show False by auto
  qed
  from n del have "remove_path ?q s ?w1 = Inr (?w1\<lparr>root := r'\<rparr>)"
    by (cases n) (simp_all add: remove_path_def)
  then have "(if os_path_isfile w s then do_all [print m, os_remove s] w else Inr w)
             = Inr (?w1\<lparr>root := r'\<rparr>)"
    using True by (simp add: print_def os_remove_def q)
  moreover from lookup_del_unrelated [OF del np pn] d
  have "lookup (root (?w1\<lparr>root := r'\<rparr>)) p = Some (Dir [])" by simp
  ultimately show ?thesis by blast
qed


subsection \<open>create\_output\_dir\<close>

text \<open>
  Claim C4. Whenever \<^verbatim>\<open>create_output_dir\<close> returns, the path it returns is the
  canonical form of the requested one, a directory is there, and no regular file (no
  archive) is at that path extended by \<open>.tar.gz\<close>, whatever the clear flag was. A
  directory of that name is not a file and is not removed.
\<close>

theorem create_output_dir_postcondition:
  assumes "create_output_dir requested clear_flag w = Inr (p, w')"
  shows "p = get_canonical_path w requested \<and> isdir w' p \<and>
         \<not> os_path_isfile w' (path_str p @ ''.tar.gz'')"
proof -
  from assms obtain w2 where p: "p = get_canonical_path w requested" and d: "isdir w2 p"
    and r: "(if os_path_isfile w2 (path_str p @ ''.tar.gz'')
      then do_all [print (''*** Deleting existing file '' @ path_str p @ ''.tar.gz...\<newline>\<newline>''),
                   os_remove (path_str p @ ''.tar.gz'')] w2
      else Inr w2) = Inr w'"
    by (rule create_output_dir_result)
  from remove_archive_keeps_dir [OF d r] p show ?thesis by simp
qed

theorem create_output_dir_postcondition_witness:
  "\<not> isl (create_output_dir ''/tmp/out'' False world1) \<and>
   fst (projr (create_output_dir ''/tmp/out'' False world1)) = get_canonical_path world1 ''/tmp/out'' \<and>
   isdir (snd (projr (create_output_dir ''/tmp/out'' False world1)))
         (fst (projr (create_output_dir ''/tmp/out'' False world1))) \<and>
   \<not> os_path_isfile (snd (projr (create_output_dir ''/tmp/out'' False world1)))
         (path_str (fst (projr (create_output_dir ''/tmp/out'' False world1))) @ ''.tar.gz'')"
proof -
  have ok: "\<not> isl (create_output_dir ''/tmp/out'' False world1)" by code_simp
  then have h: "create_output_dir ''/tmp/out'' False world1 =
      Inr (fst (projr (create_output_dir ''/tmp/out'' False world1)),
           snd (projr (create_output_dir ''/tmp/out'' False world1)))"
    by (cases "create_output_dir ''/tmp/out'' False world1") auto
  from create_output_dir_postcondition [OF h] ok show ?thesis by blast
qed


text \<open>
  Claim C8. With the clear flag set and a regular file at the requested path (in a
  filesystem whose root is a directory), \<^verbatim>\<open>create_output_dir\<close> returns, and afterwards
  a directory, freshly made and empty, is at that path instead of the file.
\<close>

theorem create_output_dir_clear_file:
  assumes rootdir: "isdir w []"
    and f: "isfile w (get_canonical_path w requested)"
  shows "\<exists>w'. create_output_dir requested True w = Inr (get_canonical_path w requested, w') \<and>
              lookup (root w') (get_canonical_path w requested) = Some (Dir [])"
proof -
  let ?p = "get_canonical_path w requested"
  let ?m = "''*** Deleting existing file '' @ path_str ?p @ ''...\<newline>\<newline>''"
  let ?w0 = "w\<lparr>out := out w @ [Printed ?m]\<rparr>"
  from rootdir f have pne: "?p \<noteq> []"
    by (auto simp: isdir_def isfile_def is_dir_node_def is_file_node_def split: node.splits)
  from f obtain n where n: "lookup (root w) ?p = Some n" "\<forall>es. n \<noteq> Dir es"
    by (auto simp: isfile_def is_file_node_def split: option.splits node.splits)
  from n(1) pne obtain r1 where d1: "del (root w) ?p = Some r1"
    using del_succeeds by blast
  from n d1 have rm: "remove_path ?p (path_str ?p) ?w0 = Inr (?w0\<lparr>root := r1\<rparr>)"
    by (cases n) (simp_all add: remove_path_def)
  let ?w1 = "?w0\<lparr>root := r1\<rparr>"
  from mkdirs_after_del [OF d1] obtain r2 where
    m: "mkdirs r1 ?p (path_str ?p) = Inr r2" and l2: "lookup r2 ?p = Some (Dir [])" by blast
  let ?w2 = "?w1\<lparr>root := r2\<rparr>"
  from m have mk: "makedirs_path ?p ?w1 = Inr ?w2" by (simp add: makedirs_path_def)
  from l2 have "lookup (root ?w2) ?p = Some (Dir [])" by simp
  from remove_archive_keeps_empty_dir [OF this]
  obtain w3 where
    t: "(if os_path_isfile ?w2 (path_str ?p @ ''.tar.gz'')
         then do_all [print (''*** Deleting existing file '' @ path_str ?p @ ''.tar.gz...\<newline>\<newline>''),
                      os_remove (path_str ?p @ ''.tar.gz'')] ?w2
         else Inr ?w2) = Inr w3"
    and l3: "lookup (root w3) ?p = Some (Dir [])" by blast
  from rm have s1: "do_all [print ?m, remove_path ?p (path_str ?p)] w = Inr ?w1"
    by (simp add: print_def)
  have "create_output_dir requested True w = Inr (?p, w3)"
    unfolding create_output_dir_def Let_def
    by (simp only: f if_True s1 mk t sum.case reraise_def)
  with l3 show ?thesis by blast
qed

theorem create_output_dir_clear_file_witness:
  "isdir world1 [] \<and> isfile world1 (get_canonical_path world1 ''/tmp/snap'') \<and>
   (\<exists>w'. create_output_dir ''/tmp/snap'' True world1 = Inr (get_canonical_path world1 ''/tmp/snap'', w') \<and>
         lookup (root w') (get_canonical_path world1 ''/tmp/snap'') = Some (Dir []))"
proof -
  have a: "isdir world1 []" by code_simp
  have b: "isfile world1 (get_canonical_path world1 ''/tmp/snap'')" by code_simp
  from create_output_dir_clear_file [OF a b] a b show ?thesis by blast
qed

subsection \<open>The enumeration of the home directory\<close>

lemma isValidDirToCopy_entry:
  "isValidDirToCopy es b \<Longrightarrow> (name, Dir sub) \<in> set es \<Longrightarrow> name \<noteq> b \<and> isValidDirToCopy sub b"
  by (induction es b rule: isValidDirToCopy.induct) (auto split: if_splits)

lemma isValidDirToCopy_no_dir_named:
  "isValidDirToCopy es b \<Longrightarrow> q \<noteq> [] \<Longrightarrow> is_dir_node (lookup (Dir es) q) \<Longrightarrow> last q \<noteq> b"
proof (induction q arbitrary: es)
  case Nil
  then show ?case by simp
next
  case (Cons c cs)
  from Cons.prems(3) obtain m where m: "map_of es c = Some m" and d: "is_dir_node (lookup m cs)"
    by (auto simp: is_dir_node_def split: option.splits)
  from m have mem: "(c, m) \<in> set es" by (rule map_of_SomeD)
  show ?case
  proof (cases cs)
    case Nil
    with d obtain sub where "m = Dir sub"
      by (auto simp: is_dir_node_def split: node.splits)
    with mem Cons.prems(1) Nil show ?thesis
      by (auto dest: isValidDirToCopy_entry)
  next
    case (Cons d' ds)
    with d obtain sub where s: "m = Dir sub"
      by (cases m) (auto simp: is_dir_node_def)
    with mem Cons.prems(1) have "isValidDirToCopy sub b"
      by (auto dest: isValidDirToCopy_entry)
    from Cons.IH [OF this _ d [unfolded s]] Cons show ?thesis by simp
  qed
qed

lemma home_entries_to_save_sound:
  "p \<in> set (home_entries_to_save sp b es) \<Longrightarrow>
   \<exists>name n. (name, n) \<in> set es \<and> p = os_path_join sp name \<and>
     (is_file_node (Some n) \<or>
      (\<exists>sub. n = Dir sub \<and> name \<noteq> b \<and> isValidDirToCopy sub b))"
proof (induction sp b es rule: home_entries_to_save.induct)
  case (1 sp b)
  then show ?case by simp
next
  case (2 sp b name n es)
  show ?case
  proof (cases "p = os_path_join sp name \<and>
                (is_file_node (Some n) \<or> (\<exists>sub. n = Dir sub \<and> name \<noteq> b \<and> isValidDirToCopy sub b))")
    case True
    then show ?thesis by auto
  next
    case False
    with 2 have "p \<in> set (home_entries_to_save sp b es)"
      by (cases n) (auto simp: is_dir_node_def is_file_node_def split: if_splits)
    with 2 obtain name' n' where "(name', n') \<in> set es" "p = os_path_join sp name'"
      "is_file_node (Some n') \<or> (\<exists>sub. n' = Dir sub \<and> name' \<noteq> b \<and> isValidDirToCopy sub b)"
      by (cases n) (auto simp: is_dir_node_def is_file_node_def split: if_splits)
    then show ?thesis by auto
  qed
qed

lemma home_entries_to_save_file:
  "(name, n) \<in> set es \<Longrightarrow> is_file_node (Some n) \<Longrightarrow>
   os_path_join sp name \<in> set (home_entries_to_save sp b es)"
  by (induction sp b es rule: home_entries_to_save.induct)
     (auto simp: is_dir_node_def is_file_node_def split: node.splits)

lemma os_path_join_inj: "os_path_join sp a = os_path_join sp b \<Longrightarrow> a = b"
  by (auto simp: os_path_join_def split: if_splits)

lemma dir_is_not_file: "is_dir_node x \<Longrightarrow> \<not> is_file_node x"
  by (auto simp: is_dir_node_def is_file_node_def split: option.splits node.splits)


text \<open>
  Claim C5. Every path that \<^verbatim>\<open>getHomeDirContentToSave\<close> returns is an entry of the home
  directory that neither is nor contains, at any depth, a directory named like the
  configured output directory, \<^verbatim>\<open>os.path.basename(self.outdir_path.parent)\<close>. Where the
  names of the home directory are distinct, an entry that is or contains such a directory
  (\<open>project\<close> with \<open>project/outdir_base\<close>) is not in the list at all.
\<close>

theorem home_enumeration_excludes_outdir_basename:
  assumes "getHomeDirContentToSave outdir_path w = Inr (sv_files, w')"
  shows "\<exists>es. lookup (root w) (get_canonical_path w ''$HOME'') = Some (Dir es) \<and>
    (\<forall>p \<in> set sv_files. \<exists>name n.
        (name, n) \<in> set es \<and>
        p = os_path_join (path_str (get_canonical_path w ''$HOME'')) name \<and>
        (\<forall>q. is_dir_node (lookup n q) \<longrightarrow> last (name # q) \<noteq> basename (parent outdir_path))) \<and>
    (distinct (map fst es) \<longrightarrow>
       (\<forall>name n q. (name, n) \<in> set es \<and> is_dir_node (lookup n q) \<and>
                  last (name # q) = basename (parent outdir_path) \<longrightarrow>
          os_path_join (path_str (get_canonical_path w ''$HOME'')) name \<notin> set sv_files))"
proof -
  let ?home = "get_canonical_path w ''$HOME''"
  let ?b = "basename (parent outdir_path)"
  from assms obtain es where es: "lookup (root w) ?home = Some (Dir es)"
    and sv: "sv_files = home_entries_to_save (path_str ?home) ?b es"
    by (auto simp: getHomeDirContentToSave_def Let_def split: option.splits node.splits)
  have clean: "last (name # q) \<noteq> ?b"
    if k: "is_file_node (Some n) \<or> (\<exists>sub. n = Dir sub \<and> name \<noteq> ?b \<and> isValidDirToCopy sub ?b)"
      and d: "is_dir_node (lookup n q)" for name n q
  proof (cases q)
    case Nil
    with k d show ?thesis by (auto dest: dir_is_not_file)
  next
    case (Cons c cs)
    with d have "\<exists>sub. n = Dir sub" by (cases n) (auto simp: is_dir_node_def)
    with k obtain sub where s: "n = Dir sub" and v: "isValidDirToCopy sub ?b"
      by (auto simp: is_file_node_def)
    from isValidDirToCopy_no_dir_named [OF v _ d [unfolded s]] Cons show ?thesis by simp
  qed
  have sound: "\<exists>name n. (name, n) \<in> set es \<and> p = os_path_join (path_str ?home) name \<and>
        (\<forall>q. is_dir_node (lookup n q) \<longrightarrow> last (name # q) \<noteq> ?b)"
    if p: "p \<in> set sv_files" for p
  proof -
    from p [unfolded sv] obtain name n where mem: "(name, n) \<in> set es"
      and pj: "p = os_path_join (path_str ?home) name"
      and k: "is_file_node (Some n) \<or> (\<exists>sub. n = Dir sub \<and> name \<noteq> ?b \<and> isValidDirToCopy sub ?b)"
      by (blast dest: home_entries_to_save_sound)
    from clean [OF k] mem pj show ?thesis by blast
  qed
  have excl: "os_path_join (path_str ?home) name \<notin> set sv_files"
    if dist: "distinct (map fst es)" and mem: "(name, n) \<in> set es"
      and d: "is_dir_node (lookup n q)" and l: "last (name # q) = ?b" for name n q
  proof
    assume "os_path_join (path_str ?home) name \<in> set sv_files"
    from this [unfolded sv] obtain name' n' where mem': "(name', n') \<in> set es"
      and pj: "os_path_join (path_str ?home) name = os_path_join (path_str ?home) name'"
      and k: "is_file_node (Some n') \<or> (\<exists>sub. n' = Dir sub \<and> name' \<noteq> ?b \<and> isValidDirToCopy sub ?b)"
      by (blast dest: home_entries_to_save_sound)
    from pj have nn: "name' = name" by (auto dest: os_path_join_inj)
    with dist mem mem' have n': "n' = n"
      by (metis eq_key_imp_eq_value)
    from clean [OF k [unfolded nn n'] d] l show False by simp
  qed
  from es sound excl show ?thesis by blast
qed

theorem home_enumeration_excludes_outdir_basename_witness:
  "\<not> isl (getHomeDirContentToSave [''tmp'', ''snap'', ''gather_info_docker''] world0) \<and>
   fst (projr (getHomeDirContentToSave [''tmp'', ''snap'', ''gather_info_docker''] world0)) =
     [''/root/.bash_history'', ''/root/models'', ''/root/snap''] \<and>
   (\<exists>es. lookup (root world0) (get_canonical_path world0 ''$HOME'') = Some (Dir es) \<and>
     (\<forall>p \<in> set (fst (projr (getHomeDirContentToSave [''tmp'', ''snap'', ''gather_info_docker''] world0))).
        \<exists>name n.
          (name, n) \<in> set es \<and>
          p = os_path_join (path_str (get_canonical_path world0 ''$HOME'')) name \<and>
          (\<forall>q. is_dir_node (lookup n q) \<longrightarrow>
               last (name # q) \<noteq> basename (parent [''tmp'', ''snap'', ''gather_info_docker'']))) \<and>
     (distinct (map fst es) \<longrightarrow>
       (\<forall>name n q. (name, n) \<in> set es \<and> is_dir_node (lookup n q) \<and>
                  last (name # q) = basename (parent [''tmp'', ''snap'', ''gather_info_docker'']) \<longrightarrow>
          os_path_join (path_str (get_canonical_path world0 ''$HOME'')) name \<notin>
            set (fst (projr (getHomeDirContentToSave [''tmp'', ''snap'', ''gather_info_docker''] world0))))))"
proof -
  have ok: "\<not> isl (getHomeDirContentToSave [''tmp'', ''snap'', ''gather_info_docker''] world0)"
    by code_simp
  have v: "fst (projr (getHomeDirContentToSave [''tmp'', ''snap'', ''gather_info_docker''] world0)) =
     [''/root/.bash_history'', ''/root/models'', ''/root/snap'']"
    by code_simp
  from ok have h: "getHomeDirContentToSave [''tmp'', ''snap'', ''gather_info_docker''] world0 =
      Inr (fst (projr (getHomeDirContentToSave [''tmp'', ''snap'', ''gather_info_docker''] world0)),
           snd (projr (getHomeDirContentToSave [''tmp'', ''snap'', ''gather_info_docker''] world0)))"
    by (cases "getHomeDirContentToSave [''tmp'', ''snap'', ''gather_info_docker''] world0") auto
  from home_enumeration_excludes_outdir_basename [OF h] ok v show ?thesis by blast
qed


text \<open>
  Claim C10. The exclusion by name applies to directories only: a regular file of the home
  directory that has the excluded name is in the list that \<^verbatim>\<open>getHomeDirContentToSave\<close>
  returns.
\<close>

theorem home_file_named_like_outdir_is_kept:
  assumes "lookup (root w) (get_canonical_path w ''$HOME'') = Some (Dir es)"
    and "(basename (parent outdir_path), n) \<in> set es"
    and "is_file_node (Some n)"
  shows "\<exists>sv_files w'. getHomeDirContentToSave outdir_path w = Inr (sv_files, w') \<and>
           os_path_join (path_str (get_canonical_path w ''$HOME'')) (basename (parent outdir_path))
             \<in> set sv_files"
  using assms
  by (simp add: getHomeDirContentToSave_def Let_def home_entries_to_save_file)

theorem home_file_named_like_outdir_is_kept_witness:
  "lookup (root world0) (get_canonical_path world0 ''$HOME'') =
     Some (Dir [(''.bash_history'', File ''python3 train.py''),
                (''project'', Dir [(''snap'', Dir [(''old.txt'', File ''x'')])]),
                (''models'', Dir [(''ckpt'', Dir [])]),
                (''snap'', File ''notes'')]) \<and>
   basename (parent [''tmp'', ''snap'', ''gather_info_docker'']) = ''snap'' \<and>
   (\<exists>sv_files w'. getHomeDirContentToSave [''tmp'', ''snap'', ''gather_info_docker''] world0 = Inr (sv_files, w') \<and>
       os_path_join (path_str (get_canonical_path world0 ''$HOME''))
         (basename (parent [''tmp'', ''snap'', ''gather_info_docker''])) \<in> set sv_files)"
proof -
  have a: "lookup (root world0) (get_canonical_path world0 ''$HOME'') =
     Some (Dir [(''.bash_history'', File ''python3 train.py''),
                (''project'', Dir [(''snap'', Dir [(''old.txt'', File ''x'')])]),
                (''models'', Dir [(''ckpt'', Dir [])]),
                (''snap'', File ''notes'')])"
    by code_simp
  have b: "basename (parent [''tmp'', ''snap'', ''gather_info_docker'']) = ''snap''"
    by code_simp
  have c: "(basename (parent [''tmp'', ''snap'', ''gather_info_docker'']), File ''notes'') \<in>
           set [(''.bash_history'', File ''python3 train.py''),
                (''project'', Dir [(''snap'', Dir [(''old.txt'', File ''x'')])]),
                (''models'', Dir [(''ckpt'', Dir [])]),
                (''snap'', File ''notes'')]"
    by (simp add: b)
  have d: "is_file_node (Some (File ''notes''))" by (simp add: is_file_node_def)
  from home_file_named_like_outdir_is_kept [OF a c d] a b show ?thesis by blast
qed

subsection \<open>The collection steps\<close>

lemma generateHeader_ok:
  "generateHeader s sep w =
     Inr (w\<lparr>out := out w @ [Printed ''\<newline>'', Printed (concat (replicate 80 sep)), Printed s,
                              Printed (concat (replicate 80 sep))]\<rparr>)"
  by (simp add: generateHeader_def print_def)


text \<open>
  Claim C3, as the code has it. With the lite flag set, the step for the home directory
  prints its banner and returns: the filesystem and the working directory are as before,
  so the subdirectory for the home directory's contents is not created by this step and
  nothing is copied.
\<close>

theorem lite_skips_home_artifacts:
  assumes "lite a"
  shows "\<exists>w'. saveModelSpecificArtifacts sh a outdir_path w = Inr w' \<and>
              root w' = root w \<and> cwd w' = cwd w \<and> length (out w') = length (out w) + 4"
  using assms by (simp add: saveModelSpecificArtifacts_def generateHeader_ok)

theorem lite_skips_home_artifacts_witness:
  "lite args_lite \<and>
   (\<exists>w'. saveModelSpecificArtifacts sh_ref args_lite outdir0 world_ready = Inr w' \<and>
         root w' = root world_ready \<and> cwd w' = cwd world_ready \<and>
         length (out w') = length (out world_ready) + 4)"
proof -
  have l: "lite args_lite" by code_simp
  from lite_skips_home_artifacts [OF l] l show ?thesis by blast
qed


text \<open>
  Claim C3 as stated fails: in lite mode the subdirectory
  \<open>docker_container_homedir_and_model_artifacts\<close> does not exist after the step, although
  the output directory does.
\<close>

theorem lite_creates_no_home_artifacts_dir:
  "lite args_lite \<and>
   isdir world_ready outdir0 \<and>
   \<not> isl (saveModelSpecificArtifacts sh_ref args_lite outdir0 world_ready) \<and>
   \<not> os_path_exists (projr (saveModelSpecificArtifacts sh_ref args_lite outdir0 world_ready))
        ''/tmp/snap/gather_info_docker/docker_container_homedir_and_model_artifacts''"
  by code_simp

end
